theory Spec2Isabelle
  imports Main "HOL-Library.Sublist"
begin

section \<open>Go strings: the library functions the scanner calls\<close>

text \<open>
  A Go string is a sequence of bytes, here a \<^typ>\<open>string\<close>. \<open>strings.TrimSpace\<close> and
  \<open>strings.Fields\<close> decode UTF-8 and treat the code points of \<open>unicode.IsSpace\<close> as white
  space: the six ASCII ones, U+0085, U+00A0, U+1680, U+2000 to U+200A, U+2028, U+2029,
  U+202F, U+205F and U+3000. Each encoding starts with a byte that is no continuation
  byte, so an encoding found at a position of the byte string is a decoded code point
  there, and the functions below work on the bytes directly.
\<close>

definition space_encodings :: "string list" where
  "space_encodings =
    [[CHR 0x09], [CHR 0x0A], [CHR 0x0B], [CHR 0x0C], [CHR 0x0D], [CHR 0x20],
     [CHR 0xC2, CHR 0x85], [CHR 0xC2, CHR 0xA0],
     [CHR 0xE1, CHR 0x9A, CHR 0x80],
     [CHR 0xE2, CHR 0x80, CHR 0x80], [CHR 0xE2, CHR 0x80, CHR 0x81],
     [CHR 0xE2, CHR 0x80, CHR 0x82], [CHR 0xE2, CHR 0x80, CHR 0x83],
     [CHR 0xE2, CHR 0x80, CHR 0x84], [CHR 0xE2, CHR 0x80, CHR 0x85],
     [CHR 0xE2, CHR 0x80, CHR 0x86], [CHR 0xE2, CHR 0x80, CHR 0x87],
     [CHR 0xE2, CHR 0x80, CHR 0x88], [CHR 0xE2, CHR 0x80, CHR 0x89],
     [CHR 0xE2, CHR 0x80, CHR 0x8A],
     [CHR 0xE2, CHR 0x80, CHR 0xA8], [CHR 0xE2, CHR 0x80, CHR 0xA9],
     [CHR 0xE2, CHR 0x80, CHR 0xAF],
     [CHR 0xE2, CHR 0x81, CHR 0x9F],
     [CHR 0xE3, CHR 0x80, CHR 0x80]]"

text \<open>The number of bytes of the white-space code point at the head of a string, 0 if none.\<close>

definition space_width :: "string \<Rightarrow> nat" where
  "space_width s =
    (case find (\<lambda>p. prefix p s) space_encodings of None \<Rightarrow> 0 | Some p \<Rightarrow> length p)"

function TrimLeft :: "string \<Rightarrow> string" where
  "TrimLeft [] = []"
| "TrimLeft (c # cs) =
    (if space_width (c # cs) = 0 then c # cs
     else TrimLeft (drop (space_width (c # cs) - 1) cs))"
  by pat_completeness auto
termination
  by (relation "measure length") auto

fun TrimRight :: "string \<Rightarrow> string" where
  "TrimRight [] = []"
| "TrimRight (c # cs) = (if TrimLeft (c # cs) = [] then [] else c # TrimRight cs)"

definition TrimSpace :: "string \<Rightarrow> string" where
  "TrimSpace s = TrimRight (TrimLeft s)"

text \<open>
  \<open>strings.Fields\<close>: the maximal runs of bytes between white space; \<open>cur\<close> is the field
  being read.
\<close>

function Fields_from :: "string \<Rightarrow> string \<Rightarrow> string list" where
  "Fields_from cur [] = (if cur = [] then [] else [cur])"
| "Fields_from cur (c # cs) =
    (if space_width (c # cs) = 0 then Fields_from (cur @ [c]) cs
     else (if cur = [] then [] else [cur])
          @ Fields_from [] (drop (space_width (c # cs) - 1) cs))"
  by pat_completeness auto
termination
  by (relation "measure (\<lambda>(cur, s). length s)") auto

definition Fields :: "string \<Rightarrow> string list" where
  "Fields s = Fields_from [] s"

definition Contains :: "string \<Rightarrow> string \<Rightarrow> bool" where
  "Contains s substr = sublist substr s"

definition HasPrefix :: "string \<Rightarrow> string \<Rightarrow> bool" where
  "HasPrefix s pre = prefix pre s"

section \<open>Run-time values: errors, panics, results, readers\<close>

datatype error = EOF | IOError string | Errorf string

datatype panic = IndexOutOfRange | SliceBoundsOutOfRange

text \<open>
  A Go function returning \<open>(T, error)\<close> either returns both values or panics.
  A nil slice is the empty list, the empty string is \<open>[]\<close>.
\<close>

datatype 'a outcome = Return 'a "error option" | Panic panic

text \<open>
  How a \<open>for\<close> loop is left: \<open>Done\<close> with the loop's variables when it ends (its range
  is used up, or a \<open>break\<close>), \<open>Exit\<close> when the function returned or panicked inside it.
\<close>

datatype ('s, 'a) loop_exit = Done 's | Exit "'a outcome"

text \<open>\<open>xs[i]\<close> and \<open>s[lo:hi]\<close> with Go's bounds checks.\<close>

definition index :: "'a list \<Rightarrow> nat \<Rightarrow> 'a option" where
  "index xs i = (if i < length xs then Some (xs ! i) else None)"

definition slice :: "string \<Rightarrow> int \<Rightarrow> int \<Rightarrow> string option" where
  "slice s lo hi =
    (if 0 \<le> lo \<and> lo \<le> hi \<and> hi \<le> int (length s)
     then Some (take (nat (hi - lo)) (drop (nat lo) s)) else None)"

text \<open>
  A \<open>bufio.Reader\<close> over a file: the bytes not read yet, and the error the underlying
  source reports once they are used up (\<open>EOF\<close> for a file that simply ends).
\<close>

record reader =
  buf :: string
  src_err :: error

text \<open>
  \<open>ReadString(delim)\<close>: the bytes up to and including the first \<open>delim\<close>; when the
  source runs out first, the bytes read so far together with the error.
\<close>

definition ReadString :: "reader \<Rightarrow> char \<Rightarrow> (string \<times> error option) \<times> reader" where
  "ReadString r delim =
    (case dropWhile (\<lambda>c. c \<noteq> delim) (buf r) of
       [] \<Rightarrow> ((buf r, Some (src_err r)), r\<lparr>buf := []\<rparr>)
     | d # rest \<Rightarrow> ((takeWhile (\<lambda>c. c \<noteq> delim) (buf r) @ [d], None), r\<lparr>buf := rest\<rparr>))"

lemma ReadString_shorter:
  "ReadString r delim = ((line, None), r') \<Longrightarrow> length (buf r') < length (buf r)"
proof -
  assume a: "ReadString r delim = ((line, None), r')"
  have "length (dropWhile (\<lambda>c. c \<noteq> delim) (buf r)) \<le> length (buf r)"
    by (rule length_dropWhile_le)
  with a show ?thesis
    by (auto simp: ReadString_def split: list.splits)
qed

section \<open>ParseFileForImports (main.go)\<close>

text \<open>
  The inner \<open>for\<close> loop of the block form, lines 153 to 173: it is left by \<open>break\<close> at
  the closing parenthesis, by \<open>return nil, err\<close> when a read fails, or by the panic of
  \<open>imp[1:len(imp)-1]\<close>.
\<close>

function ParseFileForImports_block ::
  "reader \<Rightarrow> string list \<Rightarrow> (string list, string list) loop_exit \<times> reader" where
  "ParseFileForImports_block r imports =
    (case ReadString r CHR 0x0A of
       ((line, Some err), r1) \<Rightarrow> (Exit (Return [] (Some err)), r1)
     | ((line, None), r1) \<Rightarrow>
        (let ts = TrimSpace line in
         if ts = '')'' then (Done imports, r1)
         else if ts = [] then ParseFileForImports_block r1 imports
         else
          (let split = Fields line in
           case (if length split = 2 then index split 1 else index split 0) of
             None \<Rightarrow> (Exit (Panic IndexOutOfRange), r1)
           | Some imp \<Rightarrow>
              (case slice imp 1 (int (length imp) - 1) of
                 None \<Rightarrow> (Exit (Panic SliceBoundsOutOfRange), r1)
               | Some p \<Rightarrow> ParseFileForImports_block r1 (imports @ [p])))))"
  by pat_completeness auto
termination
  by (relation "measure (\<lambda>(r, imports). length (buf r))")
     (auto dest: ReadString_shorter [OF sym])

declare ParseFileForImports_block.simps [simp del]

lemma ParseFileForImports_block_fail:
  "ReadString r CHR 0x0A = ((line, Some err), r1) \<Longrightarrow>
   ParseFileForImports_block r imps = (Exit (Return [] (Some err)), r1)"
  by (subst ParseFileForImports_block.simps) simp

lemma ParseFileForImports_block_line:
  "ReadString r CHR 0x0A = ((line, None), r1) \<Longrightarrow>
   ParseFileForImports_block r imps =
     (if TrimSpace line = '')'' then (Done imps, r1)
      else if TrimSpace line = [] then ParseFileForImports_block r1 imps
      else
       (case (if length (Fields line) = 2 then index (Fields line) 1
              else index (Fields line) 0) of
          None \<Rightarrow> (Exit (Panic IndexOutOfRange), r1)
        | Some imp \<Rightarrow>
           (case slice imp 1 (int (length imp) - 1) of
              None \<Rightarrow> (Exit (Panic SliceBoundsOutOfRange), r1)
            | Some p \<Rightarrow> ParseFileForImports_block r1 (imps @ [p]))))"
  by (subst ParseFileForImports_block.simps) (simp add: Let_def)

lemma ReadString_fail_buf:
  "ReadString r delim = ((line, Some err), r1) \<Longrightarrow> buf r1 = [] \<and> err = src_err r"
  by (auto simp: ReadString_def split: list.splits)

lemma ParseFileForImports_block_shorter:
  "ParseFileForImports_block r imps = (x, r') \<Longrightarrow> length (buf r') \<le> length (buf r)"
proof (induction r imps arbitrary: x r' rule: ParseFileForImports_block.induct)
  case (1 r imps)
  obtain line e r1 where rs: "ReadString r CHR 0x0A = ((line, e), r1)"
    by (metis prod.exhaust)
  show ?case
  proof (cases e)
    case (Some err)
    with rs have "ParseFileForImports_block r imps = (Exit (Return [] (Some err)), r1)"
      by (simp add: ParseFileForImports_block_fail)
    with "1.prems" have "r' = r1" by simp
    with rs Some show ?thesis by (simp add: ReadString_fail_buf)
  next
    case None
    with rs have ok: "ReadString r CHR 0x0A = ((line, None), r1)" by simp
    have lt: "length (buf r1) < length (buf r)"
      using ok by (rule ReadString_shorter)
    note eq = ParseFileForImports_block_line [OF ok, of imps]
    show ?thesis
    proof (cases "TrimSpace line = '')''")
      case True
      with eq "1.prems" have "r' = r1" by simp
      with lt show ?thesis by simp
    next
      case nclose: False
      show ?thesis
      proof (cases "TrimSpace line = []")
        case True
        with eq nclose "1.prems" have "ParseFileForImports_block r1 imps = (x, r')" by simp
        from "1.IH"(1) [OF ok [symmetric] refl refl refl nclose True this] lt
        show ?thesis by simp
      next
        case nblank: False
        let ?sel = "if length (Fields line) = 2 then index (Fields line) 1
                    else index (Fields line) 0"
        show ?thesis
        proof (cases ?sel)
          case None
          with eq nclose nblank "1.prems" have "r' = r1" by simp
          with lt show ?thesis by simp
        next
          case (Some imp)
          note sel = this
          show ?thesis
          proof (cases "slice imp 1 (int (length imp) - 1)")
            case None
            with eq nclose nblank sel "1.prems" have "r' = r1" by simp
            with lt show ?thesis by simp
          next
            case (Some p)
            with eq nclose nblank sel "1.prems"
            have "ParseFileForImports_block r1 (imps @ [p]) = (x, r')" by simp
            from "1.IH"(2) [OF ok [symmetric] refl refl refl nclose nblank refl sel Some this] lt
            show ?thesis by simp
          qed
        qed
      qed
    qed
  qed
qed

text \<open>
  The outer \<open>for\<close> loop, lines 139 to 181, with the local variables \<open>imports\<close> and
  \<open>linesWithoutImport\<close> as arguments. \<open>linesWithoutImport\<close> is a Go \<open>int\<close>; it counts
  lines of one file, so it stays far below the range of the type and is an \<^typ>\<open>int\<close>.
\<close>

function ParseFileForImports_loop ::
  "reader \<Rightarrow> string list \<Rightarrow> int \<Rightarrow> string list outcome \<times> reader" where
  "ParseFileForImports_loop r imports linesWithoutImport =
    (case ReadString r CHR 0x0A of
       ((line, Some err), r1) \<Rightarrow> (Return [] (Some err), r1)
     | ((line, None), r1) \<Rightarrow>
        if TrimSpace line = [] then ParseFileForImports_loop r1 imports (linesWithoutImport + 1)
        else if Contains line ''import \"'' then
          (case index (Fields line) 1 of
             None \<Rightarrow> (Panic IndexOutOfRange, r1)
           | Some p \<Rightarrow> ParseFileForImports_loop r1 (imports @ [p]) linesWithoutImport)
        else if Contains line ''import ('' then
          (case ParseFileForImports_block r1 imports of
             (Exit out, r2) \<Rightarrow> (out, r2)
           | (Done imports', r2) \<Rightarrow>
              if linesWithoutImport \<ge> 5 then (Return imports' None, r2)
              else ParseFileForImports_loop r2 imports' linesWithoutImport)
        else if linesWithoutImport + 1 \<ge> 5 then (Return imports None, r1)
        else ParseFileForImports_loop r1 imports (linesWithoutImport + 1))"
  by pat_completeness auto
termination
  by (relation "measure (\<lambda>(r, imports, n). length (buf r))")
     (auto dest!: ReadString_shorter [OF sym] ParseFileForImports_block_shorter [OF sym])

declare ParseFileForImports_loop.simps [simp del]

definition ParseFileForImports :: "reader \<Rightarrow> string list outcome \<times> reader" where
  "ParseFileForImports r = ParseFileForImports_loop r [] 0"

section \<open>ParseFileForImports in the variant of main.go that reads directories from stdin\<close>

text \<open>
  The repository holds a second variant of \<open>main.go\<close> (the one that also takes the
  directories from standard input). Its \<open>ParseFileForImports\<close> differs in one line: the
  single-line form appends \<open>split[1][1:len(split[1])-1]\<close> instead of \<open>split[1]\<close>. The
  inner loop of the block form is the same text, so
  \<^const>\<open>ParseFileForImports_block\<close> models it too.
\<close>

function ParseFileForImports_stdin_loop ::
  "reader \<Rightarrow> string list \<Rightarrow> int \<Rightarrow> string list outcome \<times> reader" where
  "ParseFileForImports_stdin_loop r imports linesWithoutImport =
    (case ReadString r CHR 0x0A of
       ((line, Some err), r1) \<Rightarrow> (Return [] (Some err), r1)
     | ((line, None), r1) \<Rightarrow>
        if TrimSpace line = []
        then ParseFileForImports_stdin_loop r1 imports (linesWithoutImport + 1)
        else if Contains line ''import \"'' then
          (case index (Fields line) 1 of
             None \<Rightarrow> (Panic IndexOutOfRange, r1)
           | Some q \<Rightarrow>
              (case slice q 1 (int (length q) - 1) of
                 None \<Rightarrow> (Panic SliceBoundsOutOfRange, r1)
               | Some p \<Rightarrow>
                  ParseFileForImports_stdin_loop r1 (imports @ [p]) linesWithoutImport))
        else if Contains line ''import ('' then
          (case ParseFileForImports_block r1 imports of
             (Exit out, r2) \<Rightarrow> (out, r2)
           | (Done imports', r2) \<Rightarrow>
              if linesWithoutImport \<ge> 5 then (Return imports' None, r2)
              else ParseFileForImports_stdin_loop r2 imports' linesWithoutImport)
        else if linesWithoutImport + 1 \<ge> 5 then (Return imports None, r1)
        else ParseFileForImports_stdin_loop r1 imports (linesWithoutImport + 1))"
  by pat_completeness auto
termination
  by (relation "measure (\<lambda>(r, imports, n). length (buf r))")
     (auto dest!: ReadString_shorter [OF sym] ParseFileForImports_block_shorter [OF sym])

declare ParseFileForImports_stdin_loop.simps [simp del]

definition ParseFileForImports_stdin :: "reader \<Rightarrow> string list outcome \<times> reader" where
  "ParseFileForImports_stdin r = ParseFileForImports_stdin_loop r [] 0"

section \<open>GetPackageName\<close>

record FileReader =
  fr_Name :: string
  fr_R :: reader

record Directory =
  dir_Name :: string
  dir_Files :: "FileReader list"

record Package =
  pkg_Name :: string
  pkg_Deps :: "string list"

text \<open>
  The \<open>for ... range d.Files\<close> loop, lines 190 to 204, with \<open>seen\<close> (a Go map used as a
  set) and \<open>pkg_name\<close> as arguments. Reading moves the file's reader, so the files are
  returned too.
\<close>

fun GetPackageName_loop ::
  "FileReader list \<Rightarrow> string set \<Rightarrow> string \<Rightarrow>
   (string set \<times> string, string) loop_exit \<times> FileReader list" where
  "GetPackageName_loop [] seen pkg_name = (Done (seen, pkg_name), [])"
| "GetPackageName_loop (f # fs) seen pkg_name =
    (case ReadString (fr_R f) CHR 0x0A of
       ((line, Some err), r1) \<Rightarrow> (Exit (Return [] (Some err)), f\<lparr>fr_R := r1\<rparr> # fs)
     | ((line, None), r1) \<Rightarrow>
        (let fields = Fields line in
         if length fields \<noteq> 2 \<or> fields ! 0 \<noteq> ''package''
         then (Exit (Return []
                 (Some (Errorf (''error: malformed package line: '' @ line
                                @ '' in file '' @ fr_Name f)))),
               f\<lparr>fr_R := r1\<rparr> # fs)
         else
          (case GetPackageName_loop fs (insert (fields ! 1) seen) (fields ! 1) of
             (res, fs') \<Rightarrow> (res, f\<lparr>fr_R := r1\<rparr> # fs'))))"

definition GetPackageName :: "Directory \<Rightarrow> string outcome \<times> Directory" where
  "GetPackageName d =
    (case GetPackageName_loop (dir_Files d) {} [] of
       (Exit out, fs') \<Rightarrow> (out, d\<lparr>dir_Files := fs'\<rparr>)
     | (Done (seen, pkg_name), fs') \<Rightarrow>
        (if card seen = 0
         then Return [] (Some (Errorf (''could not find a package in dir '' @ dir_Name d)))
         else if card seen \<noteq> 1
         then Return []
                (Some (Errorf (''more than one package declaration in folder '' @ dir_Name d)))
         else Return pkg_name None,
         d\<lparr>dir_Files := fs'\<rparr>))"

section \<open>FilterDependencies\<close>

text \<open>
  \<open>build.Import(d, "", build.FindOnly)\<close> asks the installed toolchain; it is a parameter
  here, giving \<open>pkg.Goroot\<close> and the error for a path. The parameter \<open>external\<close> is not
  used by the code.
\<close>

fun FilterDependencies_loop ::
  "(string \<Rightarrow> bool \<times> error option) \<Rightarrow> string list \<Rightarrow> bool \<Rightarrow> string list \<Rightarrow> string list" where
  "FilterDependencies_loop build_Import [] noStd ret = ret"
| "FilterDependencies_loop build_Import (d # deps) noStd ret =
    (if noStd then
       (case build_Import d of
          (Goroot, err) \<Rightarrow>
            if Contains d ''golang.org/x/'' \<or> (err = None \<and> Goroot)
            then FilterDependencies_loop build_Import deps noStd ret
            else FilterDependencies_loop build_Import deps noStd (ret @ [d]))
     else FilterDependencies_loop build_Import deps noStd (ret @ [d]))"

definition FilterDependencies ::
  "(string \<Rightarrow> bool \<times> error option) \<Rightarrow> string list \<Rightarrow> bool \<Rightarrow> bool \<Rightarrow> string list" where
  "FilterDependencies build_Import deps external noStd =
     FilterDependencies_loop build_Import deps noStd []"


section \<open>GetGoFiles and main\<close>

text \<open>
  The operating system as the program sees it: \<open>os.ReadDir\<close> and \<open>os.Open\<close> (a file
  opened is the reader over its content), \<open>filepath.Join\<close>, and the toolchain lookup
  \<open>build.Import\<close>.
\<close>

record DirEntry =
  de_Name :: string
  de_IsDir :: bool

record os =
  os_ReadDir :: "string \<Rightarrow> error + DirEntry list"
  os_Open :: "string \<Rightarrow> error + reader"
  filepath_Join :: "string \<Rightarrow> string \<Rightarrow> string"
  build_Import :: "string \<Rightarrow> bool \<times> error option"

text \<open>
  \<open>filepath.Ext\<close>: the suffix from the last dot of the last path element. The scan
  goes from the end of the path; \<open>acc\<close> is the part already passed.
\<close>

fun Ext_scan :: "string \<Rightarrow> string \<Rightarrow> string" where
  "Ext_scan [] acc = []"
| "Ext_scan (c # cs) acc =
    (if c = CHR ''/'' then []
     else if c = CHR ''.'' then c # acc
     else Ext_scan cs (c # acc))"

definition Ext :: "string \<Rightarrow> string" where
  "Ext path = Ext_scan (rev path) []"

fun GetGoFiles_loop :: "os \<Rightarrow> string \<Rightarrow> DirEntry list \<Rightarrow> string list \<Rightarrow> string list" where
  "GetGoFiles_loop env dir_name [] go_files = go_files"
| "GetGoFiles_loop env dir_name (f # dir) go_files =
    (if HasPrefix (de_Name f) ''.'' then GetGoFiles_loop env dir_name dir go_files
     else if de_IsDir f then GetGoFiles_loop env dir_name dir go_files
     else
      (let n = filepath_Join env dir_name (de_Name f) in
       if Ext n = ''.go'' then GetGoFiles_loop env dir_name dir (go_files @ [n])
       else GetGoFiles_loop env dir_name dir go_files))"

definition GetGoFiles :: "os \<Rightarrow> string \<Rightarrow> DirEntry list \<Rightarrow> string list" where
  "GetGoFiles env dir_name dir = GetGoFiles_loop env dir_name dir []"

text \<open>\<open>err.Error()\<close>, the text of an error.\<close>

fun Error :: "error \<Rightarrow> string" where
  "Error EOF = ''EOF''"
| "Error (IOError msg) = msg"
| "Error (Errorf msg) = msg"

text \<open>
  How the process ends: \<open>os.Exit\<close> with the bytes written to standard output so far,
  or a panic that nothing recovers.
\<close>

datatype run = Exited string int | Crashed panic

datatype main_loop_exit = Finished "Package list" "error list" | Halted run

text \<open>Lines 69 to 76: open every file; a file that cannot be opened is recorded and left out.\<close>

fun main_open_loop ::
  "os \<Rightarrow> string list \<Rightarrow> FileReader list \<Rightarrow> error list \<Rightarrow> FileReader list \<times> error list" where
  "main_open_loop env [] files errs = (files, errs)"
| "main_open_loop env (g # go_files) files errs =
    (case os_Open env g of
       Inl err \<Rightarrow> main_open_loop env go_files files (errs @ [err])
     | Inr f \<Rightarrow> main_open_loop env go_files (files @ [\<lparr>fr_Name = g, fr_R = f\<rparr>]) errs)"

text \<open>Lines 93 to 97: append the imports not yet in the list.\<close>

fun main_add_loop :: "string list \<Rightarrow> string list \<Rightarrow> string list" where
  "main_add_loop [] imports = imports"
| "main_add_loop (s # i) imports =
    (if s \<in> set imports then main_add_loop i imports else main_add_loop i (imports @ [s]))"

text \<open>
  Lines 87 to 98: the imports of every file of the directory; a panic of the extractor
  ends the loop (\<open>Inl\<close>). The extractor is a parameter, since the two variants of
  \<open>main.go\<close> call their own.
\<close>

fun main_imports_loop ::
  "(reader \<Rightarrow> string list outcome \<times> reader) \<Rightarrow> FileReader list \<Rightarrow> string list \<Rightarrow>
   error list \<Rightarrow> panic + string list \<times> error list" where
  "main_imports_loop parse [] imports errs = Inr (imports, errs)"
| "main_imports_loop parse (f # files) imports errs =
    (case fst (parse (fr_R f)) of
       Panic p \<Rightarrow> Inl p
     | Return i (Some err) \<Rightarrow> main_imports_loop parse files imports (errs @ [err])
     | Return i None \<Rightarrow> main_imports_loop parse files (main_add_loop i imports) errs)"

text \<open>The loop over the directories, lines 55 to 101 of main.go.\<close>

fun main_loop :: "os \<Rightarrow> string list \<Rightarrow> Package list \<Rightarrow> error list \<Rightarrow> main_loop_exit" where
  "main_loop env [] pkgs errs = Finished pkgs errs"
| "main_loop env (d # args) pkgs errs =
    (case os_ReadDir env d of
       Inl err \<Rightarrow>
         Halted (Exited (''error reading directory: '' @ Error err @ [CHR 0x0A]) 1)
     | Inr entry \<Rightarrow>
        (let go_files = GetGoFiles env d entry in
         if length go_files = 0
         then main_loop env args pkgs (errs @ [Errorf (''error: no .go files in '' @ d)])
         else
          (case main_open_loop env go_files [] errs of
             (files, errs1) \<Rightarrow>
              (case GetPackageName \<lparr>dir_Name = d, dir_Files = files\<rparr> of
                 (Panic p, dir) \<Rightarrow> Halted (Crashed p)
               | (Return pkg_name (Some err), dir) \<Rightarrow> main_loop env args pkgs (errs1 @ [err])
               | (Return pkg_name None, dir) \<Rightarrow>
                  (case main_imports_loop ParseFileForImports (dir_Files dir) [] errs1 of
                     Inl p \<Rightarrow> Halted (Crashed p)
                   | Inr (imports, errs2) \<Rightarrow>
                       main_loop env args
                         (pkgs @ [\<lparr>pkg_Name = pkg_name, pkg_Deps = imports\<rparr>]) errs2)))))"

text \<open>
  \<open>main\<close> of main.go after \<open>flag.Parse\<close>: \<open>args\<close> are the directories, \<open>noStd\<close> the
  flag \<open>-no-std\<close>. The usage text goes to standard error and is not modelled.
\<close>

definition main :: "os \<Rightarrow> string list \<Rightarrow> bool \<Rightarrow> run" where
  "main env args noStd =
    (if length args = 0 then Exited [] 1
     else
      (case main_loop env args [] [] of
         Halted h \<Rightarrow> h
       | Finished pkgs errs \<Rightarrow>
          if length errs \<noteq> 0
          then Exited (''errors:'' @ [CHR 0x0A]
                       @ concat (map (\<lambda>err. Error err @ [CHR 0x0A]) errs)) 1
          else Exited
                (concat (map (\<lambda>p.
                   concat (map (\<lambda>d. pkg_Name p @ '' '' @ d @ [CHR 0x0A])
                     (FilterDependencies (build_Import env) (pkg_Deps p) False noStd)))
                   pkgs)) 0))"




section \<open>Text files for the statements\<close>

text \<open>
  A line of text with its newline, a file as the concatenation of its lines, and the
  reader over a file on disk, which reports \<open>EOF\<close> at its end.
\<close>

definition ln :: "string \<Rightarrow> string" where
  "ln s = s @ [CHR 0x0A]"

definition file_of :: "string list \<Rightarrow> string" where
  "file_of ls = concat (map ln ls)"

definition NewReader :: "string \<Rightarrow> reader" where
  "NewReader content = \<lparr>buf = content, src_err = EOF\<rparr>"

section \<open>One turn of the loops\<close>

lemma ReadString_ln:
  "CHR 0x0A \<notin> set s \<Longrightarrow>
   ReadString \<lparr>buf = ln s @ rest, src_err = e\<rparr> CHR 0x0A
     = ((ln s, None), \<lparr>buf = rest, src_err = e\<rparr>)"
  by (simp add: ReadString_def ln_def dropWhile_append3 takeWhile_append2
           dropWhile_append takeWhile_append split: list.splits)

lemma ReadString_line:
  assumes "ReadString r delim = ((line, None), r1)"
  shows "buf r = line @ buf r1" and "src_err r1 = src_err r"
    and "\<exists>s. line = s @ [delim] \<and> delim \<notin> set s"
proof -
  let ?rest = "dropWhile (\<lambda>c. c \<noteq> delim) (buf r)"
  let ?pre = "takeWhile (\<lambda>c. c \<noteq> delim) (buf r)"
  from assms obtain d rest where dr: "?rest = d # rest"
    and l: "line = ?pre @ [d]" and r1: "r1 = r\<lparr>buf := rest\<rparr>"
    by (auto simp: ReadString_def split: list.splits)
  have "d = delim"
    using dr hd_dropWhile [of "\<lambda>c. c \<noteq> delim" "buf r"] by auto
  have "buf r = ?pre @ ?rest" by simp
  with dr l r1 show "buf r = line @ buf r1" by simp
  from r1 show "src_err r1 = src_err r" by simp
  have "delim \<notin> set ?pre"
    by (auto dest: set_takeWhileD)
  with l \<open>d = delim\<close> show "\<exists>s. line = s @ [delim] \<and> delim \<notin> set s" by blast
qed

lemma ParseFileForImports_loop_fail:
  "ReadString r CHR 0x0A = ((line, Some err), r1) \<Longrightarrow>
   ParseFileForImports_loop r imps n = (Return [] (Some err), r1)"
  by (subst ParseFileForImports_loop.simps) simp

lemma ParseFileForImports_loop_line:
  "ReadString r CHR 0x0A = ((line, None), r1) \<Longrightarrow>
   ParseFileForImports_loop r imps n =
     (if TrimSpace line = [] then ParseFileForImports_loop r1 imps (n + 1)
      else if Contains line ''import \"'' then
        (case index (Fields line) 1 of
           None \<Rightarrow> (Panic IndexOutOfRange, r1)
         | Some p \<Rightarrow> ParseFileForImports_loop r1 (imps @ [p]) n)
      else if Contains line ''import ('' then
        (case ParseFileForImports_block r1 imps of
           (Exit out, r2) \<Rightarrow> (out, r2)
         | (Done imps', r2) \<Rightarrow>
            if n \<ge> 5 then (Return imps' None, r2)
            else ParseFileForImports_loop r2 imps' n)
      else if n + 1 \<ge> 5 then (Return imps None, r1)
      else ParseFileForImports_loop r1 imps (n + 1))"
  by (subst ParseFileForImports_loop.simps) simp

lemma ParseFileForImports_stdin_loop_fail:
  "ReadString r CHR 0x0A = ((line, Some err), r1) \<Longrightarrow>
   ParseFileForImports_stdin_loop r imps n = (Return [] (Some err), r1)"
  by (subst ParseFileForImports_stdin_loop.simps) simp

lemma ParseFileForImports_stdin_loop_line:
  "ReadString r CHR 0x0A = ((line, None), r1) \<Longrightarrow>
   ParseFileForImports_stdin_loop r imps n =
     (if TrimSpace line = [] then ParseFileForImports_stdin_loop r1 imps (n + 1)
      else if Contains line ''import \"'' then
        (case index (Fields line) 1 of
           None \<Rightarrow> (Panic IndexOutOfRange, r1)
         | Some q \<Rightarrow>
            (case slice q 1 (int (length q) - 1) of
               None \<Rightarrow> (Panic SliceBoundsOutOfRange, r1)
             | Some p \<Rightarrow> ParseFileForImports_stdin_loop r1 (imps @ [p]) n))
      else if Contains line ''import ('' then
        (case ParseFileForImports_block r1 imps of
           (Exit out, r2) \<Rightarrow> (out, r2)
         | (Done imps', r2) \<Rightarrow>
            if n \<ge> 5 then (Return imps' None, r2)
            else ParseFileForImports_stdin_loop r2 imps' n)
      else if n + 1 \<ge> 5 then (Return imps None, r1)
      else ParseFileForImports_stdin_loop r1 imps (n + 1))"
  by (subst ParseFileForImports_stdin_loop.simps) simp

section \<open>The single-line import followed by blank lines\<close>

text \<open>
  Claim C1, evaluated on main.go. A file that is the line \<open>import "fmt"\<close> and five blank
  lines: a blank line goes on with \<open>continue\<close> before the threshold is compared, so the
  scan reads a seventh line, meets the end of the file and returns \<open>nil\<close> and \<open>EOF\<close>.
  With two more lines in the file the scan stops only at the line after the blank
  ones, and the path it returns still has its quotes.
\<close>

theorem C1_blank_lines_do_not_stop_the_scan:
  "ParseFileForImports (NewReader (file_of [''import \"fmt\"'', [], [], [], [], []]))
     = (Return [] (Some EOF), NewReader [])
   \<and> ParseFileForImports
       (NewReader (file_of [''import \"fmt\"'', [], [], [], [], [], ''func main() {'', ''}'']))
     = (Return [''\"fmt\"''] None, NewReader (file_of [''}'']))"
  by code_simp

section \<open>The quotes of a single-line import\<close>

lemma import_fmt_line:
  "CHR 0x0A \<notin> set ''import \"fmt\"''"
  "TrimSpace (ln ''import \"fmt\"'') \<noteq> []"
  "Contains (ln ''import \"fmt\"'') ''import \"''"
  "Fields (ln ''import \"fmt\"'') = [''import'', ''\"fmt\"'']"
  by code_simp+

text \<open>
  Claim C3, evaluated on both variants. At the line \<open>import "fmt"\<close>, with any
  imports found before, any counter and any rest of the file, main.go appends the
  second field as it stands, \<open>"fmt"\<close> with its quotes, and goes on; the variant that
  reads directories from stdin appends \<open>fmt\<close>.
\<close>

theorem C3_single_import_keeps_its_quotes:
  "ParseFileForImports_loop \<lparr>buf = ln ''import \"fmt\"'' @ rest, src_err = e\<rparr> imps n
     = ParseFileForImports_loop \<lparr>buf = rest, src_err = e\<rparr> (imps @ [''\"fmt\"'']) n
   \<and> ParseFileForImports_stdin_loop \<lparr>buf = ln ''import \"fmt\"'' @ rest, src_err = e\<rparr> imps n
     = ParseFileForImports_stdin_loop \<lparr>buf = rest, src_err = e\<rparr> (imps @ [''fmt'']) n"
proof -
  have rs: "ReadString \<lparr>buf = ln ''import \"fmt\"'' @ rest, src_err = e\<rparr> CHR 0x0A
              = ((ln ''import \"fmt\"'', None), \<lparr>buf = rest, src_err = e\<rparr>)"
    by (rule ReadString_ln) (rule import_fmt_line)
  show ?thesis
    by (simp add: ParseFileForImports_loop_line [OF rs]
          ParseFileForImports_stdin_loop_line [OF rs] import_fmt_line index_def slice_def)
qed

section \<open>Badly quoted lines of an import block\<close>

text \<open>
  Claim C6, evaluated on main.go. A block line that is one quote character gives a
  token of one byte, and \<open>imp[1:len(imp)-1]\<close> panics (slice bounds out of range); the
  closing parenthesis is left unread. A path with no closing quote is no error either:
  its last byte is cut off and \<open>"fmt\<close> is returned as \<open>fm\<close>.
\<close>

theorem C6_block_token_of_one_byte_panics:
  "ParseFileForImports (NewReader (file_of [''import ('', [CHR 0x09, CHR 0x22], '')'']))
     = (Panic SliceBoundsOutOfRange, NewReader (file_of ['')'']))
   \<and> ParseFileForImports
       (NewReader (file_of [''import ('', [CHR 0x09] @ ''\"fmt'', '')'',
                            ''var a int'', ''var b int'', ''var c int'', ''var d int'',
                            ''var e int'']))
     = (Return [''fm''] None, NewReader [])"
  by code_simp
section \<open>Induction over the turns of the loops\<close>

text \<open>
  The induction rules of the loops, with one case for each way a turn can go, stated
  with the line that was read.
\<close>

lemma ParseFileForImports_block_induct
  [case_names fail close blank no_token short_token path]:
  assumes "\<And>r imps line err r1.
      ReadString r CHR 0x0A = ((line, Some err), r1) \<Longrightarrow> P r imps"
    and "\<And>r imps line r1.
      ReadString r CHR 0x0A = ((line, None), r1) \<Longrightarrow> TrimSpace line = '')'' \<Longrightarrow> P r imps"
    and "\<And>r imps line r1.
      ReadString r CHR 0x0A = ((line, None), r1) \<Longrightarrow> TrimSpace line \<noteq> '')'' \<Longrightarrow>
      TrimSpace line = [] \<Longrightarrow> P r1 imps \<Longrightarrow> P r imps"
    and "\<And>r imps line r1.
      ReadString r CHR 0x0A = ((line, None), r1) \<Longrightarrow> TrimSpace line \<noteq> '')'' \<Longrightarrow>
      TrimSpace line \<noteq> [] \<Longrightarrow>
      (if length (Fields line) = 2 then index (Fields line) 1 else index (Fields line) 0)
        = None \<Longrightarrow> P r imps"
    and "\<And>r imps line r1 imp.
      ReadString r CHR 0x0A = ((line, None), r1) \<Longrightarrow> TrimSpace line \<noteq> '')'' \<Longrightarrow>
      TrimSpace line \<noteq> [] \<Longrightarrow>
      (if length (Fields line) = 2 then index (Fields line) 1 else index (Fields line) 0)
        = Some imp \<Longrightarrow>
      slice imp 1 (int (length imp) - 1) = None \<Longrightarrow> P r imps"
    and "\<And>r imps line r1 imp p.
      ReadString r CHR 0x0A = ((line, None), r1) \<Longrightarrow> TrimSpace line \<noteq> '')'' \<Longrightarrow>
      TrimSpace line \<noteq> [] \<Longrightarrow>
      (if length (Fields line) = 2 then index (Fields line) 1 else index (Fields line) 0)
        = Some imp \<Longrightarrow>
      slice imp 1 (int (length imp) - 1) = Some p \<Longrightarrow> P r1 (imps @ [p]) \<Longrightarrow> P r imps"
  shows "P r imps"
proof (induction r imps rule: ParseFileForImports_block.induct)
  case (1 r imps)
  obtain line e r1 where rs: "ReadString r CHR 0x0A = ((line, e), r1)"
    by (metis prod.exhaust)
  show ?case
  proof (cases e)
    case (Some err)
    with rs assms(1) show ?thesis by blast
  next
    case None
    with rs have ok: "ReadString r CHR 0x0A = ((line, None), r1)" by simp
    let ?sel = "if length (Fields line) = 2 then index (Fields line) 1
                else index (Fields line) 0"
    consider (a) "TrimSpace line = '')''"
      | (b) "TrimSpace line \<noteq> '')''" "TrimSpace line = []"
      | (c) "TrimSpace line \<noteq> '')''" "TrimSpace line \<noteq> []" "?sel = None"
      | (d) imp where "TrimSpace line \<noteq> '')''" "TrimSpace line \<noteq> []" "?sel = Some imp"
          "slice imp 1 (int (length imp) - 1) = None"
      | (e) imp p where "TrimSpace line \<noteq> '')''" "TrimSpace line \<noteq> []" "?sel = Some imp"
          "slice imp 1 (int (length imp) - 1) = Some p"
      by (cases ?sel; cases "slice (the ?sel) 1 (int (length (the ?sel)) - 1)") fastforce+
    then show ?thesis
    proof cases
      case a
      with ok assms(2) show ?thesis by blast
    next
      case b
      from "1.IH"(1) [OF ok [symmetric] refl refl refl b]
      show ?thesis by (rule assms(3) [OF ok b])
    next
      case c
      with ok assms(4) show ?thesis by blast
    next
      case d
      with ok assms(5) show ?thesis by blast
    next
      case e
      from "1.IH"(2) [OF ok [symmetric] refl refl refl e(1,2) refl e(3,4)]
      show ?thesis by (rule assms(6) [OF ok e])
    qed
  qed
qed

lemma ParseFileForImports_loop_induct
  [case_names fail blank no_field single block_exit block_stop block_go other_stop other_go]:
  fixes P :: "reader \<Rightarrow> string list \<Rightarrow> int \<Rightarrow> bool"
  assumes "\<And>r imps n line err r1.
      ReadString r CHR 0x0A = ((line, Some err), r1) \<Longrightarrow> P r imps n"
    and "\<And>r imps n line r1.
      ReadString r CHR 0x0A = ((line, None), r1) \<Longrightarrow> TrimSpace line = [] \<Longrightarrow>
      P r1 imps (n + 1) \<Longrightarrow> P r imps n"
    and "\<And>r imps n line r1.
      ReadString r CHR 0x0A = ((line, None), r1) \<Longrightarrow> TrimSpace line \<noteq> [] \<Longrightarrow>
      Contains line ''import \"'' \<Longrightarrow> index (Fields line) 1 = None \<Longrightarrow> P r imps n"
    and "\<And>r imps n line r1 p.
      ReadString r CHR 0x0A = ((line, None), r1) \<Longrightarrow> TrimSpace line \<noteq> [] \<Longrightarrow>
      Contains line ''import \"'' \<Longrightarrow> index (Fields line) 1 = Some p \<Longrightarrow>
      P r1 (imps @ [p]) n \<Longrightarrow> P r imps n"
    and "\<And>r imps n line r1 out r2.
      ReadString r CHR 0x0A = ((line, None), r1) \<Longrightarrow> TrimSpace line \<noteq> [] \<Longrightarrow>
      \<not> Contains line ''import \"'' \<Longrightarrow> Contains line ''import ('' \<Longrightarrow>
      ParseFileForImports_block r1 imps = (Exit out, r2) \<Longrightarrow> P r imps n"
    and "\<And>r imps n line r1 imps' r2.
      ReadString r CHR 0x0A = ((line, None), r1) \<Longrightarrow> TrimSpace line \<noteq> [] \<Longrightarrow>
      \<not> Contains line ''import \"'' \<Longrightarrow> Contains line ''import ('' \<Longrightarrow>
      ParseFileForImports_block r1 imps = (Done imps', r2) \<Longrightarrow> 5 \<le> n \<Longrightarrow> P r imps n"
    and "\<And>r imps n line r1 imps' r2.
      ReadString r CHR 0x0A = ((line, None), r1) \<Longrightarrow> TrimSpace line \<noteq> [] \<Longrightarrow>
      \<not> Contains line ''import \"'' \<Longrightarrow> Contains line ''import ('' \<Longrightarrow>
      ParseFileForImports_block r1 imps = (Done imps', r2) \<Longrightarrow> \<not> 5 \<le> n \<Longrightarrow>
      P r2 imps' n \<Longrightarrow> P r imps n"
    and "\<And>r imps n line r1.
      ReadString r CHR 0x0A = ((line, None), r1) \<Longrightarrow> TrimSpace line \<noteq> [] \<Longrightarrow>
      \<not> Contains line ''import \"'' \<Longrightarrow> \<not> Contains line ''import ('' \<Longrightarrow>
      5 \<le> n + 1 \<Longrightarrow> P r imps n"
    and "\<And>r imps n line r1.
      ReadString r CHR 0x0A = ((line, None), r1) \<Longrightarrow> TrimSpace line \<noteq> [] \<Longrightarrow>
      \<not> Contains line ''import \"'' \<Longrightarrow> \<not> Contains line ''import ('' \<Longrightarrow>
      \<not> 5 \<le> n + 1 \<Longrightarrow> P r1 imps (n + 1) \<Longrightarrow> P r imps n"
  shows "P r imps n"
proof (induction r imps n rule: ParseFileForImports_loop.induct)
  case (1 r imps n)
  obtain line e r1 where rs: "ReadString r CHR 0x0A = ((line, e), r1)"
    by (metis prod.exhaust)
  show ?case
  proof (cases e)
    case (Some err)
    with rs assms(1) show ?thesis by blast
  next
    case None
    with rs have ok: "ReadString r CHR 0x0A = ((line, None), r1)" by simp
    show ?thesis
    proof (cases "TrimSpace line = []")
      case True
      from "1.IH"(1) [OF ok [symmetric] refl refl True]
      show ?thesis by (rule assms(2) [OF ok True])
    next
      case nblank: False
      show ?thesis
      proof (cases "Contains line ''import \"''")
        case True
        show ?thesis
        proof (cases "index (Fields line) 1")
          case None
          with ok nblank True assms(3) show ?thesis by blast
        next
          case (Some p)
          from "1.IH"(2) [OF ok [symmetric] refl refl nblank True Some]
          show ?thesis by (rule assms(4) [OF ok nblank True Some])
        qed
      next
        case nsingle: False
        show ?thesis
        proof (cases "Contains line ''import (''")
          case True
          obtain x r2 where b: "ParseFileForImports_block r1 imps = (x, r2)"
            by (metis prod.exhaust)
          show ?thesis
          proof (cases x)
            case (Exit out)
            with b ok nblank nsingle True assms(5) show ?thesis by blast
          next
            case (Done imps')
            with b have d: "ParseFileForImports_block r1 imps = (Done imps', r2)" by simp
            show ?thesis
            proof (cases "5 \<le> n")
              case True
              with d ok nblank nsingle \<open>Contains line ''import (''\<close> assms(6)
              show ?thesis by blast
            next
              case False
              from "1.IH"(3) [OF ok [symmetric] refl refl nblank nsingle True d [symmetric]
                   refl False]
              show ?thesis by (rule assms(7) [OF ok nblank nsingle True d False])
            qed
          qed
        next
          case nblock: False
          show ?thesis
          proof (cases "5 \<le> n + 1")
            case True
            with ok nblank nsingle nblock assms(8) show ?thesis by blast
          next
            case False
            from "1.IH"(4) [OF ok [symmetric] refl refl nblank nsingle nblock False]
            show ?thesis by (rule assms(9) [OF ok nblank nsingle nblock False])
          qed
        qed
      qed
    qed
  qed
qed


lemma ParseFileForImports_stdin_loop_induct
  [case_names fail blank no_field short_field single block_exit block_stop block_go other_stop other_go]:
  fixes P :: "reader \<Rightarrow> string list \<Rightarrow> int \<Rightarrow> bool"
  assumes "\<And>r imps n line err r1.
      ReadString r CHR 0x0A = ((line, Some err), r1) \<Longrightarrow> P r imps n"
    and "\<And>r imps n line r1.
      ReadString r CHR 0x0A = ((line, None), r1) \<Longrightarrow> TrimSpace line = [] \<Longrightarrow>
      P r1 imps (n + 1) \<Longrightarrow> P r imps n"
    and "\<And>r imps n line r1.
      ReadString r CHR 0x0A = ((line, None), r1) \<Longrightarrow> TrimSpace line \<noteq> [] \<Longrightarrow>
      Contains line ''import \"'' \<Longrightarrow> index (Fields line) 1 = None \<Longrightarrow> P r imps n"
    and "\<And>r imps n line r1 q.
      ReadString r CHR 0x0A = ((line, None), r1) \<Longrightarrow> TrimSpace line \<noteq> [] \<Longrightarrow>
      Contains line ''import \"'' \<Longrightarrow> index (Fields line) 1 = Some q \<Longrightarrow>
      slice q 1 (int (length q) - 1) = None \<Longrightarrow> P r imps n"
    and "\<And>r imps n line r1 q p.
      ReadString r CHR 0x0A = ((line, None), r1) \<Longrightarrow> TrimSpace line \<noteq> [] \<Longrightarrow>
      Contains line ''import \"'' \<Longrightarrow> index (Fields line) 1 = Some q \<Longrightarrow>
      slice q 1 (int (length q) - 1) = Some p \<Longrightarrow> P r1 (imps @ [p]) n \<Longrightarrow> P r imps n"
    and "\<And>r imps n line r1 out r2.
      ReadString r CHR 0x0A = ((line, None), r1) \<Longrightarrow> TrimSpace line \<noteq> [] \<Longrightarrow>
      \<not> Contains line ''import \"'' \<Longrightarrow> Contains line ''import ('' \<Longrightarrow>
      ParseFileForImports_block r1 imps = (Exit out, r2) \<Longrightarrow> P r imps n"
    and "\<And>r imps n line r1 imps' r2.
      ReadString r CHR 0x0A = ((line, None), r1) \<Longrightarrow> TrimSpace line \<noteq> [] \<Longrightarrow>
      \<not> Contains line ''import \"'' \<Longrightarrow> Contains line ''import ('' \<Longrightarrow>
      ParseFileForImports_block r1 imps = (Done imps', r2) \<Longrightarrow> 5 \<le> n \<Longrightarrow> P r imps n"
    and "\<And>r imps n line r1 imps' r2.
      ReadString r CHR 0x0A = ((line, None), r1) \<Longrightarrow> TrimSpace line \<noteq> [] \<Longrightarrow>
      \<not> Contains line ''import \"'' \<Longrightarrow> Contains line ''import ('' \<Longrightarrow>
      ParseFileForImports_block r1 imps = (Done imps', r2) \<Longrightarrow> \<not> 5 \<le> n \<Longrightarrow>
      P r2 imps' n \<Longrightarrow> P r imps n"
    and "\<And>r imps n line r1.
      ReadString r CHR 0x0A = ((line, None), r1) \<Longrightarrow> TrimSpace line \<noteq> [] \<Longrightarrow>
      \<not> Contains line ''import \"'' \<Longrightarrow> \<not> Contains line ''import ('' \<Longrightarrow>
      5 \<le> n + 1 \<Longrightarrow> P r imps n"
    and "\<And>r imps n line r1.
      ReadString r CHR 0x0A = ((line, None), r1) \<Longrightarrow> TrimSpace line \<noteq> [] \<Longrightarrow>
      \<not> Contains line ''import \"'' \<Longrightarrow> \<not> Contains line ''import ('' \<Longrightarrow>
      \<not> 5 \<le> n + 1 \<Longrightarrow> P r1 imps (n + 1) \<Longrightarrow> P r imps n"
  shows "P r imps n"
proof (induction r imps n rule: ParseFileForImports_stdin_loop.induct)
  case (1 r imps n)
  obtain line e r1 where rs: "ReadString r CHR 0x0A = ((line, e), r1)"
    by (metis prod.exhaust)
  show ?case
  proof (cases e)
    case (Some err)
    with rs assms(1) show ?thesis by blast
  next
    case None
    with rs have ok: "ReadString r CHR 0x0A = ((line, None), r1)" by simp
    show ?thesis
    proof (cases "TrimSpace line = []")
      case True
      from "1.IH"(1) [OF ok [symmetric] refl refl True]
      show ?thesis by (rule assms(2) [OF ok True])
    next
      case nblank: False
      show ?thesis
      proof (cases "Contains line ''import \"''")
        case True
        show ?thesis
        proof (cases "index (Fields line) 1")
          case None
          with ok nblank True assms(3) show ?thesis by blast
        next
          case (Some q)
          note fld = this
          show ?thesis
          proof (cases "slice q 1 (int (length q) - 1)")
            case None
            with ok nblank True fld assms(4) show ?thesis by blast
          next
            case (Some p)
            from "1.IH"(2) [OF ok [symmetric] refl refl nblank True fld Some]
            show ?thesis by (rule assms(5) [OF ok nblank True fld Some])
          qed
        qed
      next
        case nsingle: False
        show ?thesis
        proof (cases "Contains line ''import (''")
          case True
          obtain x r2 where b: "ParseFileForImports_block r1 imps = (x, r2)"
            by (metis prod.exhaust)
          show ?thesis
          proof (cases x)
            case (Exit out)
            with b ok nblank nsingle True assms(6) show ?thesis by blast
          next
            case (Done imps')
            with b have d: "ParseFileForImports_block r1 imps = (Done imps', r2)" by simp
            show ?thesis
            proof (cases "5 \<le> n")
              case True
              with d ok nblank nsingle \<open>Contains line ''import (''\<close> assms(7)
              show ?thesis by blast
            next
              case False
              from "1.IH"(3) [OF ok [symmetric] refl refl nblank nsingle True d [symmetric]
                   refl False]
              show ?thesis by (rule assms(8) [OF ok nblank nsingle True d False])
            qed
          qed
        next
          case nblock: False
          show ?thesis
          proof (cases "5 \<le> n + 1")
            case True
            with ok nblank nsingle nblock assms(9) show ?thesis by blast
          next
            case False
            from "1.IH"(4) [OF ok [symmetric] refl refl nblank nsingle nblock False]
            show ?thesis by (rule assms(10) [OF ok nblank nsingle nblock False])
          qed
        qed
      qed
    qed
  qed
qed

text \<open>
  The same with the result: a property of the result of a run follows from its turns.
\<close>

lemma ParseFileForImports_block_run
  [consumes 1, case_names fail close blank no_token short_token path]:
  assumes "ParseFileForImports_block r imps = (x, r')"
    and "\<And>r imps line err r1.
      ReadString r CHR 0x0A = ((line, Some err), r1) \<Longrightarrow>
      Q r imps (Exit (Return [] (Some err))) r1"
    and "\<And>r imps line r1.
      ReadString r CHR 0x0A = ((line, None), r1) \<Longrightarrow> TrimSpace line = '')'' \<Longrightarrow>
      Q r imps (Done imps) r1"
    and "\<And>r imps line r1 x r'.
      ReadString r CHR 0x0A = ((line, None), r1) \<Longrightarrow> TrimSpace line \<noteq> '')'' \<Longrightarrow>
      TrimSpace line = [] \<Longrightarrow> ParseFileForImports_block r1 imps = (x, r') \<Longrightarrow>
      Q r1 imps x r' \<Longrightarrow> Q r imps x r'"
    and "\<And>r imps line r1.
      ReadString r CHR 0x0A = ((line, None), r1) \<Longrightarrow> TrimSpace line \<noteq> '')'' \<Longrightarrow>
      TrimSpace line \<noteq> [] \<Longrightarrow>
      (if length (Fields line) = 2 then index (Fields line) 1 else index (Fields line) 0)
        = None \<Longrightarrow> Q r imps (Exit (Panic IndexOutOfRange)) r1"
    and "\<And>r imps line r1 imp.
      ReadString r CHR 0x0A = ((line, None), r1) \<Longrightarrow> TrimSpace line \<noteq> '')'' \<Longrightarrow>
      TrimSpace line \<noteq> [] \<Longrightarrow>
      (if length (Fields line) = 2 then index (Fields line) 1 else index (Fields line) 0)
        = Some imp \<Longrightarrow>
      slice imp 1 (int (length imp) - 1) = None \<Longrightarrow>
      Q r imps (Exit (Panic SliceBoundsOutOfRange)) r1"
    and "\<And>r imps line r1 imp p x r'.
      ReadString r CHR 0x0A = ((line, None), r1) \<Longrightarrow> TrimSpace line \<noteq> '')'' \<Longrightarrow>
      TrimSpace line \<noteq> [] \<Longrightarrow>
      (if length (Fields line) = 2 then index (Fields line) 1 else index (Fields line) 0)
        = Some imp \<Longrightarrow>
      slice imp 1 (int (length imp) - 1) = Some p \<Longrightarrow>
      ParseFileForImports_block r1 (imps @ [p]) = (x, r') \<Longrightarrow>
      Q r1 (imps @ [p]) x r' \<Longrightarrow> Q r imps x r'"
  shows "Q r imps x r'"
  using assms(1)
proof (induction r imps arbitrary: x r' rule: ParseFileForImports_block_induct)
  case (fail r imps line err r1)
  from fail(2) have "x = Exit (Return [] (Some err))" "r' = r1"
    by (simp_all add: ParseFileForImports_block_fail [OF fail(1)])
  with assms(2) [OF fail(1)] show ?case by simp
next
  case (close r imps line r1)
  from close(3) have "x = Done imps" "r' = r1"
    by (auto simp add: ParseFileForImports_block_line [OF close(1)] close(2))
  with assms(3) [OF close(1,2)] show ?case by simp
next
  case (blank r imps line r1)
  from blank(5) have b: "ParseFileForImports_block r1 imps = (x, r')"
    by (simp add: ParseFileForImports_block_line [OF blank(1)] blank(2,3))
  from assms(4) [OF blank(1,2,3) b blank(4) [OF b]] show ?case .
next
  case (no_token r imps line r1)
  from no_token(5) have "x = Exit (Panic IndexOutOfRange)" "r' = r1"
    by (auto simp add: ParseFileForImports_block_line [OF no_token(1)] no_token(2,3,4))
  with assms(5) [OF no_token(1,2,3,4)] show ?case by simp
next
  case (short_token r imps line r1 imp)
  from short_token(6) have "x = Exit (Panic SliceBoundsOutOfRange)" "r' = r1"
    by (auto simp add: ParseFileForImports_block_line [OF short_token(1)] short_token(2,3,4,5))
  with assms(6) [OF short_token(1,2,3,4,5)] show ?case by simp
next
  case (path r imps line r1 imp p)
  from path(7) have b: "ParseFileForImports_block r1 (imps @ [p]) = (x, r')"
    by (simp add: ParseFileForImports_block_line [OF path(1)] path(2,3,4,5))
  from assms(7) [OF path(1,2,3,4,5) b path(6) [OF b]] show ?case .
qed

lemma ParseFileForImports_loop_run
  [consumes 1, case_names fail blank no_field single block_exit block_stop block_go other_stop other_go]:
  fixes Q :: "reader \<Rightarrow> string list \<Rightarrow> int \<Rightarrow> string list outcome \<Rightarrow> reader \<Rightarrow> bool"
  assumes "ParseFileForImports_loop r imps n = (out, r')"
    and "\<And>r imps n line err r1.
      ReadString r CHR 0x0A = ((line, Some err), r1) \<Longrightarrow>
      Q r imps n (Return [] (Some err)) r1"
    and "\<And>r imps n line r1 out r'.
      ReadString r CHR 0x0A = ((line, None), r1) \<Longrightarrow>
      TrimSpace line = [] \<Longrightarrow>
      ParseFileForImports_loop r1 imps (n + 1) = (out, r') \<Longrightarrow>
      Q r1 imps (n + 1) out r' \<Longrightarrow> Q r imps n out r'"
    and "\<And>r imps n line r1.
      ReadString r CHR 0x0A = ((line, None), r1) \<Longrightarrow>
      TrimSpace line \<noteq> [] \<Longrightarrow>
      Contains line ''import \"'' \<Longrightarrow>
      index (Fields line) 1 = None \<Longrightarrow>
      Q r imps n (Panic IndexOutOfRange) r1"
    and "\<And>r imps n line r1 p out r'.
      ReadString r CHR 0x0A = ((line, None), r1) \<Longrightarrow>
      TrimSpace line \<noteq> [] \<Longrightarrow>
      Contains line ''import \"'' \<Longrightarrow>
      index (Fields line) 1 = Some p \<Longrightarrow>
      ParseFileForImports_loop r1 (imps @ [p]) n = (out, r') \<Longrightarrow>
      Q r1 (imps @ [p]) n out r' \<Longrightarrow> Q r imps n out r'"
    and "\<And>r imps n line r1 x r2.
      ReadString r CHR 0x0A = ((line, None), r1) \<Longrightarrow>
      TrimSpace line \<noteq> [] \<Longrightarrow>
      \<not> Contains line ''import \"'' \<Longrightarrow>
      Contains line ''import ('' \<Longrightarrow>
      ParseFileForImports_block r1 imps = (Exit x, r2) \<Longrightarrow>
      Q r imps n x r2"
    and "\<And>r imps n line r1 imps' r2.
      ReadString r CHR 0x0A = ((line, None), r1) \<Longrightarrow>
      TrimSpace line \<noteq> [] \<Longrightarrow>
      \<not> Contains line ''import \"'' \<Longrightarrow>
      Contains line ''import ('' \<Longrightarrow>
      ParseFileForImports_block r1 imps = (Done imps', r2) \<Longrightarrow>
      5 \<le> n \<Longrightarrow>
      Q r imps n (Return imps' None) r2"
    and "\<And>r imps n line r1 imps' r2 out r'.
      ReadString r CHR 0x0A = ((line, None), r1) \<Longrightarrow>
      TrimSpace line \<noteq> [] \<Longrightarrow>
      \<not> Contains line ''import \"'' \<Longrightarrow>
      Contains line ''import ('' \<Longrightarrow>
      ParseFileForImports_block r1 imps = (Done imps', r2) \<Longrightarrow>
      \<not> 5 \<le> n \<Longrightarrow>
      ParseFileForImports_loop r2 imps' n = (out, r') \<Longrightarrow>
      Q r2 imps' n out r' \<Longrightarrow> Q r imps n out r'"
    and "\<And>r imps n line r1.
      ReadString r CHR 0x0A = ((line, None), r1) \<Longrightarrow>
      TrimSpace line \<noteq> [] \<Longrightarrow>
      \<not> Contains line ''import \"'' \<Longrightarrow>
      \<not> Contains line ''import ('' \<Longrightarrow>
      5 \<le> n + 1 \<Longrightarrow>
      Q r imps n (Return imps None) r1"
    and "\<And>r imps n line r1 out r'.
      ReadString r CHR 0x0A = ((line, None), r1) \<Longrightarrow>
      TrimSpace line \<noteq> [] \<Longrightarrow>
      \<not> Contains line ''import \"'' \<Longrightarrow>
      \<not> Contains line ''import ('' \<Longrightarrow>
      \<not> 5 \<le> n + 1 \<Longrightarrow>
      ParseFileForImports_loop r1 imps (n + 1) = (out, r') \<Longrightarrow>
      Q r1 imps (n + 1) out r' \<Longrightarrow> Q r imps n out r'"
  shows "Q r imps n out r'"
  using assms(1)
proof (induction r imps n arbitrary: out r' rule: ParseFileForImports_loop_induct)
  case (fail r imps n line err r1)
  from fail(2) have "out = Return [] (Some err)" "r' = r1"
    by (auto simp add: ParseFileForImports_loop_fail [OF fail(1)]  simp del: One_nat_def)
  with assms(2) [OF fail(1)] show ?case by simp
next
  case (blank r imps n line r1)
  from blank(4) have b: "ParseFileForImports_loop r1 imps (n + 1) = (out, r')"
    by (simp add: ParseFileForImports_loop_line [OF blank(1)] blank(2) del: One_nat_def)
  from assms(3) [OF blank(1-2) b blank(3) [OF b]] show ?case .
next
  case (no_field r imps n line r1)
  from no_field(5) have "out = Panic IndexOutOfRange" "r' = r1"
    by (auto simp add: ParseFileForImports_loop_line [OF no_field(1)] no_field(2-4) simp del: One_nat_def)
  with assms(4) [OF no_field(1-4)] show ?case by simp
next
  case (single r imps n line r1 p)
  from single(6) have b: "ParseFileForImports_loop r1 (imps @ [p]) n = (out, r')"
    by (simp add: ParseFileForImports_loop_line [OF single(1)] single(2-4) del: One_nat_def)
  from assms(5) [OF single(1-4) b single(5) [OF b]] show ?case .
next
  case (block_exit r imps n line r1 x r2)
  from block_exit(6) have "out = x" "r' = r2"
    by (auto simp add: ParseFileForImports_loop_line [OF block_exit(1)] block_exit(2-5) simp del: One_nat_def)
  with assms(6) [OF block_exit(1-5)] show ?case by simp
next
  case (block_stop r imps n line r1 imps' r2)
  from block_stop(7) have "out = Return imps' None" "r' = r2"
    by (auto simp add: ParseFileForImports_loop_line [OF block_stop(1)] block_stop(2-6) simp del: One_nat_def)
  with assms(7) [OF block_stop(1-6)] show ?case by simp
next
  case (block_go r imps n line r1 imps' r2)
  from block_go(8) have b: "ParseFileForImports_loop r2 imps' n = (out, r')"
    by (simp add: ParseFileForImports_loop_line [OF block_go(1)] block_go(2-6) del: One_nat_def)
  from assms(8) [OF block_go(1-6) b block_go(7) [OF b]] show ?case .
next
  case (other_stop r imps n line r1)
  from other_stop(6) have "out = Return imps None" "r' = r1"
    by (auto simp add: ParseFileForImports_loop_line [OF other_stop(1)] other_stop(2-5) simp del: One_nat_def)
  with assms(9) [OF other_stop(1-5)] show ?case by simp
next
  case (other_go r imps n line r1)
  from other_go(7) have b: "ParseFileForImports_loop r1 imps (n + 1) = (out, r')"
    by (simp add: ParseFileForImports_loop_line [OF other_go(1)] other_go(2-5) del: One_nat_def)
  from assms(10) [OF other_go(1-5) b other_go(6) [OF b]] show ?case .
qed

lemma ParseFileForImports_stdin_loop_run
  [consumes 1, case_names fail blank no_field short_field single block_exit block_stop block_go other_stop other_go]:
  fixes Q :: "reader \<Rightarrow> string list \<Rightarrow> int \<Rightarrow> string list outcome \<Rightarrow> reader \<Rightarrow> bool"
  assumes "ParseFileForImports_stdin_loop r imps n = (out, r')"
    and "\<And>r imps n line err r1.
      ReadString r CHR 0x0A = ((line, Some err), r1) \<Longrightarrow>
      Q r imps n (Return [] (Some err)) r1"
    and "\<And>r imps n line r1 out r'.
      ReadString r CHR 0x0A = ((line, None), r1) \<Longrightarrow>
      TrimSpace line = [] \<Longrightarrow>
      ParseFileForImports_stdin_loop r1 imps (n + 1) = (out, r') \<Longrightarrow>
      Q r1 imps (n + 1) out r' \<Longrightarrow> Q r imps n out r'"
    and "\<And>r imps n line r1.
      ReadString r CHR 0x0A = ((line, None), r1) \<Longrightarrow>
      TrimSpace line \<noteq> [] \<Longrightarrow>
      Contains line ''import \"'' \<Longrightarrow>
      index (Fields line) 1 = None \<Longrightarrow>
      Q r imps n (Panic IndexOutOfRange) r1"
    and "\<And>r imps n line r1 q.
      ReadString r CHR 0x0A = ((line, None), r1) \<Longrightarrow>
      TrimSpace line \<noteq> [] \<Longrightarrow>
      Contains line ''import \"'' \<Longrightarrow>
      index (Fields line) 1 = Some q \<Longrightarrow>
      slice q 1 (int (length q) - 1) = None \<Longrightarrow>
      Q r imps n (Panic SliceBoundsOutOfRange) r1"
    and "\<And>r imps n line r1 q p out r'.
      ReadString r CHR 0x0A = ((line, None), r1) \<Longrightarrow>
      TrimSpace line \<noteq> [] \<Longrightarrow>
      Contains line ''import \"'' \<Longrightarrow>
      index (Fields line) 1 = Some q \<Longrightarrow>
      slice q 1 (int (length q) - 1) = Some p \<Longrightarrow>
      ParseFileForImports_stdin_loop r1 (imps @ [p]) n = (out, r') \<Longrightarrow>
      Q r1 (imps @ [p]) n out r' \<Longrightarrow> Q r imps n out r'"
    and "\<And>r imps n line r1 x r2.
      ReadString r CHR 0x0A = ((line, None), r1) \<Longrightarrow>
      TrimSpace line \<noteq> [] \<Longrightarrow>
      \<not> Contains line ''import \"'' \<Longrightarrow>
      Contains line ''import ('' \<Longrightarrow>
      ParseFileForImports_block r1 imps = (Exit x, r2) \<Longrightarrow>
      Q r imps n x r2"
    and "\<And>r imps n line r1 imps' r2.
      ReadString r CHR 0x0A = ((line, None), r1) \<Longrightarrow>
      TrimSpace line \<noteq> [] \<Longrightarrow>
      \<not> Contains line ''import \"'' \<Longrightarrow>
      Contains line ''import ('' \<Longrightarrow>
      ParseFileForImports_block r1 imps = (Done imps', r2) \<Longrightarrow>
      5 \<le> n \<Longrightarrow>
      Q r imps n (Return imps' None) r2"
    and "\<And>r imps n line r1 imps' r2 out r'.
      ReadString r CHR 0x0A = ((line, None), r1) \<Longrightarrow>
      TrimSpace line \<noteq> [] \<Longrightarrow>
      \<not> Contains line ''import \"'' \<Longrightarrow>
      Contains line ''import ('' \<Longrightarrow>
      ParseFileForImports_block r1 imps = (Done imps', r2) \<Longrightarrow>
      \<not> 5 \<le> n \<Longrightarrow>
      ParseFileForImports_stdin_loop r2 imps' n = (out, r') \<Longrightarrow>
      Q r2 imps' n out r' \<Longrightarrow> Q r imps n out r'"
    and "\<And>r imps n line r1.
      ReadString r CHR 0x0A = ((line, None), r1) \<Longrightarrow>
      TrimSpace line \<noteq> [] \<Longrightarrow>
      \<not> Contains line ''import \"'' \<Longrightarrow>
      \<not> Contains line ''import ('' \<Longrightarrow>
      5 \<le> n + 1 \<Longrightarrow>
      Q r imps n (Return imps None) r1"
    and "\<And>r imps n line r1 out r'.
      ReadString r CHR 0x0A = ((line, None), r1) \<Longrightarrow>
      TrimSpace line \<noteq> [] \<Longrightarrow>
      \<not> Contains line ''import \"'' \<Longrightarrow>
      \<not> Contains line ''import ('' \<Longrightarrow>
      \<not> 5 \<le> n + 1 \<Longrightarrow>
      ParseFileForImports_stdin_loop r1 imps (n + 1) = (out, r') \<Longrightarrow>
      Q r1 imps (n + 1) out r' \<Longrightarrow> Q r imps n out r'"
  shows "Q r imps n out r'"
  using assms(1)
proof (induction r imps n arbitrary: out r' rule: ParseFileForImports_stdin_loop_induct)
  case (fail r imps n line err r1)
  from fail(2) have "out = Return [] (Some err)" "r' = r1"
    by (auto simp add: ParseFileForImports_stdin_loop_fail [OF fail(1)]  simp del: One_nat_def)
  with assms(2) [OF fail(1)] show ?case by simp
next
  case (blank r imps n line r1)
  from blank(4) have b: "ParseFileForImports_stdin_loop r1 imps (n + 1) = (out, r')"
    by (simp add: ParseFileForImports_stdin_loop_line [OF blank(1)] blank(2) del: One_nat_def)
  from assms(3) [OF blank(1-2) b blank(3) [OF b]] show ?case .
next
  case (no_field r imps n line r1)
  from no_field(5) have "out = Panic IndexOutOfRange" "r' = r1"
    by (auto simp add: ParseFileForImports_stdin_loop_line [OF no_field(1)] no_field(2-4) simp del: One_nat_def)
  with assms(4) [OF no_field(1-4)] show ?case by simp
next
  case (short_field r imps n line r1 q)
  from short_field(6) have "out = Panic SliceBoundsOutOfRange" "r' = r1"
    by (auto simp add: ParseFileForImports_stdin_loop_line [OF short_field(1)] short_field(2-5) simp del: One_nat_def)
  with assms(5) [OF short_field(1-5)] show ?case by simp
next
  case (single r imps n line r1 q p)
  from single(7) have b: "ParseFileForImports_stdin_loop r1 (imps @ [p]) n = (out, r')"
    by (simp add: ParseFileForImports_stdin_loop_line [OF single(1)] single(2-5) del: One_nat_def)
  from assms(6) [OF single(1-5) b single(6) [OF b]] show ?case .
next
  case (block_exit r imps n line r1 x r2)
  from block_exit(6) have "out = x" "r' = r2"
    by (auto simp add: ParseFileForImports_stdin_loop_line [OF block_exit(1)] block_exit(2-5) simp del: One_nat_def)
  with assms(7) [OF block_exit(1-5)] show ?case by simp
next
  case (block_stop r imps n line r1 imps' r2)
  from block_stop(7) have "out = Return imps' None" "r' = r2"
    by (auto simp add: ParseFileForImports_stdin_loop_line [OF block_stop(1)] block_stop(2-6) simp del: One_nat_def)
  with assms(8) [OF block_stop(1-6)] show ?case by simp
next
  case (block_go r imps n line r1 imps' r2)
  from block_go(8) have b: "ParseFileForImports_stdin_loop r2 imps' n = (out, r')"
    by (simp add: ParseFileForImports_stdin_loop_line [OF block_go(1)] block_go(2-6) del: One_nat_def)
  from assms(9) [OF block_go(1-6) b block_go(7) [OF b]] show ?case .
next
  case (other_stop r imps n line r1)
  from other_stop(6) have "out = Return imps None" "r' = r1"
    by (auto simp add: ParseFileForImports_stdin_loop_line [OF other_stop(1)] other_stop(2-5) simp del: One_nat_def)
  with assms(10) [OF other_stop(1-5)] show ?case by simp
next
  case (other_go r imps n line r1)
  from other_go(7) have b: "ParseFileForImports_stdin_loop r1 imps (n + 1) = (out, r')"
    by (simp add: ParseFileForImports_stdin_loop_line [OF other_go(1)] other_go(2-5) del: One_nat_def)
  from assms(11) [OF other_go(1-5) b other_go(6) [OF b]] show ?case .
qed

section \<open>A read that fails\<close>

text \<open>
  The reader keeps the error of its source. When a loop returns an error, the error is
  the one of the source, the source is used up, and the list returned is \<open>nil\<close>.
\<close>

lemma ReadString_src_err:
  "ReadString r delim = (x, r1) \<Longrightarrow> src_err r1 = src_err r"
  by (auto simp: ReadString_def split: list.splits)

lemma ParseFileForImports_block_src_err:
  "ParseFileForImports_block r imps = (x, r') \<Longrightarrow> src_err r' = src_err r"
  by (induction rule: ParseFileForImports_block_run) (simp_all add: ReadString_src_err)

lemma ParseFileForImports_block_error:
  "ParseFileForImports_block r imps = (x, r') \<Longrightarrow> x = Exit (Return xs (Some e)) \<Longrightarrow>
   xs = [] \<and> e = src_err r \<and> buf r' = []"
  by (induction rule: ParseFileForImports_block_run)
     (auto simp add: ReadString_src_err dest: ReadString_fail_buf)

lemma ParseFileForImports_loop_error:
  "ParseFileForImports_loop r imps n = (out, r') \<Longrightarrow> out = Return xs (Some e) \<Longrightarrow>
   xs = [] \<and> e = src_err r \<and> buf r' = []"
proof (induction rule: ParseFileForImports_loop_run)
  case (block_exit r imps n line r1 x r2)
  with ParseFileForImports_block_error [of r1 imps "Exit x" r2 xs e]
  show ?case by (simp add: ReadString_src_err)
next
  case (block_go r imps n line r1 imps' r2 out r')
  with ParseFileForImports_block_src_err [of r1 imps "Done imps'" r2]
  show ?case by (simp add: ReadString_src_err)
qed (auto simp add: ReadString_src_err dest: ReadString_fail_buf)

lemma ParseFileForImports_stdin_loop_error:
  "ParseFileForImports_stdin_loop r imps n = (out, r') \<Longrightarrow> out = Return xs (Some e) \<Longrightarrow>
   xs = [] \<and> e = src_err r \<and> buf r' = []"
proof (induction rule: ParseFileForImports_stdin_loop_run)
  case (block_exit r imps n line r1 x r2)
  with ParseFileForImports_block_error [of r1 imps "Exit x" r2 xs e]
  show ?case by (simp add: ReadString_src_err)
next
  case (block_go r imps n line r1 imps' r2 out r')
  with ParseFileForImports_block_src_err [of r1 imps "Done imps'" r2]
  show ?case by (simp add: ReadString_src_err)
qed (auto simp add: ReadString_src_err dest: ReadString_fail_buf)

text \<open>
  Claim C10, for both variants of main.go: whenever \<open>ParseFileForImports\<close> returns an
  error, the list of imports it returns is \<open>nil\<close>, whatever was found before.
\<close>

theorem C10_error_comes_with_nil:
  "(fst (ParseFileForImports r) = Return xs (Some e) \<longrightarrow> xs = [])
   \<and> (fst (ParseFileForImports_stdin r) = Return xs (Some e) \<longrightarrow> xs = [])"
proof -
  obtain out r' where a: "ParseFileForImports_loop r [] 0 = (out, r')"
    by (metis prod.exhaust)
  obtain out2 r2 where b: "ParseFileForImports_stdin_loop r [] 0 = (out2, r2)"
    by (metis prod.exhaust)
  from ParseFileForImports_loop_error [OF a] ParseFileForImports_stdin_loop_error [OF b]
  show ?thesis
    by (simp add: ParseFileForImports_def ParseFileForImports_stdin_def a b)
qed


text \<open>
  A file that holds an import and then ends returns \<open>EOF\<close> and the empty list: the
  import read before is gone.
\<close>

theorem C10_error_comes_with_nil_witness:
  "fst (ParseFileForImports (NewReader (file_of [''import \"os\"'']))) = Return [] (Some EOF)
   \<and> fst (ParseFileForImports_stdin (NewReader (file_of [''import \"os\"''])))
       = Return [] (Some EOF)"
  using C10_error_comes_with_nil [of "NewReader (file_of [''import \"os\"''])" "[]" EOF]
  by code_simp

section \<open>Counting the lines that were read\<close>


fun lines_from :: "string \<Rightarrow> string \<Rightarrow> string list" where
  "lines_from cur [] = (if cur = [] then [] else [cur])"
| "lines_from cur (c # cs) =
    (if c = CHR 0x0A then (cur @ [c]) # lines_from [] cs else lines_from (cur @ [c]) cs)"

definition lines_of :: "string \<Rightarrow> string list" where
  "lines_of s = lines_from [] s"

definition uninformative :: "string \<Rightarrow> bool" where
  "uninformative line =
    (TrimSpace line = [] \<or> (\<not> Contains line ''import \"'' \<and> \<not> Contains line ''import (''))"

definition uninformative_lines :: "string \<Rightarrow> int" where
  "uninformative_lines s = int (length (filter uninformative (lines_of s)))"

text \<open>A text that ends at the end of a line.\<close>

definition whole_lines :: "string \<Rightarrow> bool" where
  "whole_lines c = (c = [] \<or> last c = CHR 0x0A)"


lemma lines_from_line:
  "CHR 0x0A \<notin> set s \<Longrightarrow>
   lines_from cur (s @ CHR 0x0A # rest) = (cur @ s @ [CHR 0x0A]) # lines_from [] rest"
  by (induction s arbitrary: cur) auto

lemma lines_from_whole:
  "lines_from cur (c @ CHR 0x0A # rest) = lines_from cur (c @ [CHR 0x0A]) @ lines_from [] rest"
  by (induction c arbitrary: cur) auto

lemma lines_of_append:
  assumes "whole_lines c"
  shows "lines_of (c @ rest) = lines_of c @ lines_of rest"
proof (cases "c = []")
  case True
  then show ?thesis by (simp add: lines_of_def)
next
  case False
  with assms have "c = butlast c @ [CHR 0x0A]"
    by (metis append_butlast_last_id whole_lines_def)
  then obtain c' where c: "c = c' @ [CHR 0x0A]" ..
  show ?thesis
    using lines_from_whole [of "[]" c' rest] by (simp add: lines_of_def c)
qed

lemma uninformative_lines_append:
  "whole_lines c \<Longrightarrow>
   uninformative_lines (c @ rest) = uninformative_lines c + uninformative_lines rest"
  by (simp add: uninformative_lines_def lines_of_append)

lemma uninformative_lines_nonneg: "0 \<le> uninformative_lines c"
  by (simp add: uninformative_lines_def)

lemma whole_lines_append: "whole_lines a \<Longrightarrow> whole_lines b \<Longrightarrow> whole_lines (a @ b)"
  by (cases "b = []") (auto simp: whole_lines_def)

lemma ReadString_whole:
  assumes "ReadString r CHR 0x0A = ((line, None), r1)"
  shows "whole_lines line" and "lines_of line = [line]"
proof -
  from ReadString_line(3) [OF assms] obtain s
    where s: "line = s @ [CHR 0x0A]" "CHR 0x0A \<notin> set s" by blast
  then show "whole_lines line" by (simp add: whole_lines_def)
  from s lines_from_line [of s "[]" "[]"] show "lines_of line = [line]"
    by (simp add: lines_of_def)
qed

lemma ReadString_uninformative_lines:
  assumes "ReadString r CHR 0x0A = ((line, None), r1)"
  shows "uninformative_lines line = (if uninformative line then 1 else 0)"
  by (simp add: uninformative_lines_def ReadString_whole(2) [OF assms])

lemma ParseFileForImports_block_never_returns_list:
  "ParseFileForImports_block r imps = (x, r') \<Longrightarrow> x \<noteq> Exit (Return xs None)"
  by (induction rule: ParseFileForImports_block_run) simp_all

lemma ParseFileForImports_block_consumed:
  "ParseFileForImports_block r imps = (x, r') \<Longrightarrow> x = Done imps' \<Longrightarrow>
   \<exists>c. buf r = c @ buf r' \<and> whole_lines c"
proof (induction rule: ParseFileForImports_block_run)
  case (close r imps line r1)
  with ReadString_line(1) [OF close(1)] ReadString_whole(1) [OF close(1)]
  show ?case by blast
next
  case (blank r imps line r1 x r')
  then obtain c where "buf r1 = c @ buf r'" "whole_lines c" by blast
  with ReadString_line(1) [OF blank(1)] ReadString_whole(1) [OF blank(1)]
  have "buf r = (line @ c) @ buf r' \<and> whole_lines (line @ c)"
    by (simp add: whole_lines_append)
  then show ?case by blast
next
  case (path r imps line r1 imp p x r')
  then obtain c where "buf r1 = c @ buf r'" "whole_lines c" by blast
  with ReadString_line(1) [OF path(1)] ReadString_whole(1) [OF path(1)]
  have "buf r = (line @ c) @ buf r' \<and> whole_lines (line @ c)"
    by (simp add: whole_lines_append)
  then show ?case by blast
qed simp_all

lemma ParseFileForImports_loop_counted:
  "ParseFileForImports_loop r imps n = (out, r') \<Longrightarrow> out = Return xs None \<Longrightarrow>
   \<exists>c. buf r = c @ buf r' \<and> whole_lines c \<and> 5 \<le> n + uninformative_lines c"
proof (induction rule: ParseFileForImports_loop_run)
  case (blank r imps n line r1 out r')
  then obtain c where c: "buf r1 = c @ buf r'" "whole_lines c"
    "5 \<le> n + 1 + uninformative_lines c" by blast
  have "uninformative_lines (line @ c) = 1 + uninformative_lines c"
    using blank(2)
    by (simp add: uninformative_lines_append ReadString_whole(1) [OF blank(1)]
          ReadString_uninformative_lines [OF blank(1)] uninformative_def)
  with c ReadString_line(1) [OF blank(1)] ReadString_whole(1) [OF blank(1)]
  have "buf r = (line @ c) @ buf r' \<and> whole_lines (line @ c)
        \<and> 5 \<le> n + uninformative_lines (line @ c)"
    by (simp add: whole_lines_append)
  then show ?case by blast
next
  case (single r imps n line r1 p out r')
  then obtain c where c: "buf r1 = c @ buf r'" "whole_lines c"
    "5 \<le> n + uninformative_lines c" by blast
  have "uninformative_lines c \<le> uninformative_lines (line @ c)"
    using uninformative_lines_nonneg [of line]
    by (simp add: uninformative_lines_append ReadString_whole(1) [OF single(1)])
  with c ReadString_line(1) [OF single(1)] ReadString_whole(1) [OF single(1)]
  have "buf r = (line @ c) @ buf r' \<and> whole_lines (line @ c)
        \<and> 5 \<le> n + uninformative_lines (line @ c)"
    by (simp add: whole_lines_append)
  then show ?case by blast
next
  case (block_exit r imps n line r1 x r2)
  with ParseFileForImports_block_never_returns_list [OF block_exit(5), of xs]
  show ?case by simp
next
  case (block_stop r imps n line r1 imps' r2)
  from ParseFileForImports_block_consumed [OF block_stop(5) refl]
  obtain cb where cb: "buf r1 = cb @ buf r2" "whole_lines cb" by blast
  with ReadString_line(1) [OF block_stop(1)] ReadString_whole(1) [OF block_stop(1)]
    block_stop(6) uninformative_lines_nonneg [of "line @ cb"]
  have "buf r = (line @ cb) @ buf r2 \<and> whole_lines (line @ cb)
        \<and> 5 \<le> n + uninformative_lines (line @ cb)"
    by (simp add: whole_lines_append)
  then show ?case by blast
next
  case (block_go r imps n line r1 imps' r2 out r')
  then obtain c where c: "buf r2 = c @ buf r'" "whole_lines c"
    "5 \<le> n + uninformative_lines c" by blast
  from ParseFileForImports_block_consumed [OF block_go(5) refl]
  obtain cb where cb: "buf r1 = cb @ buf r2" "whole_lines cb" by blast
  have w: "whole_lines (line @ cb)"
    using cb ReadString_whole(1) [OF block_go(1)] by (simp add: whole_lines_append)
  have "uninformative_lines ((line @ cb) @ c)
          = uninformative_lines (line @ cb) + uninformative_lines c"
    by (rule uninformative_lines_append [OF w])
  with uninformative_lines_nonneg [of "line @ cb"]
  have "uninformative_lines c \<le> uninformative_lines ((line @ cb) @ c)"
    by linarith
  moreover have "whole_lines ((line @ cb) @ c)"
    using w c(2) by (rule whole_lines_append)
  ultimately
  have "buf r = ((line @ cb) @ c) @ buf r' \<and> whole_lines ((line @ cb) @ c)
        \<and> 5 \<le> n + uninformative_lines ((line @ cb) @ c)"
    using c cb ReadString_line(1) [OF block_go(1)] by simp
  then show ?case by blast
next
  case (other_stop r imps n line r1)
  have "uninformative_lines line = 1"
    using other_stop(3,4)
    by (simp add: ReadString_uninformative_lines [OF other_stop(1)] uninformative_def)
  with ReadString_line(1) [OF other_stop(1)] ReadString_whole(1) [OF other_stop(1)]
    other_stop(5)
  have "buf r = line @ buf r1 \<and> whole_lines line \<and> 5 \<le> n + uninformative_lines line"
    by simp
  then show ?case by blast
next
  case (other_go r imps n line r1 out r')
  then obtain c where c: "buf r1 = c @ buf r'" "whole_lines c"
    "5 \<le> n + 1 + uninformative_lines c" by blast
  have "uninformative_lines (line @ c) = 1 + uninformative_lines c"
    using other_go(3,4)
    by (simp add: uninformative_lines_append ReadString_whole(1) [OF other_go(1)]
          ReadString_uninformative_lines [OF other_go(1)] uninformative_def)
  with c ReadString_line(1) [OF other_go(1)] ReadString_whole(1) [OF other_go(1)]
  have "buf r = (line @ c) @ buf r' \<and> whole_lines (line @ c)
        \<and> 5 \<le> n + uninformative_lines (line @ c)"
    by (simp add: whole_lines_append)
  then show ?case by blast
qed simp_all

section \<open>The counter of lines without import\<close>







section \<open>A source that fails before the threshold\<close>

lemma uninformative_lines_split:
  assumes "buf r = c @ buf r'" "whole_lines c"
  shows "uninformative_lines c \<le> uninformative_lines (buf r)"
  using uninformative_lines_append [OF assms(2), of "buf r'"]
    uninformative_lines_nonneg [of "buf r'"] assms(1)
  by simp

text \<open>
  Claim C9. A read that fails, at the top level or inside an import block, with any
  imports found so far and any counter, makes the function return the error of the
  read; the outer loop hands on what the block loop returned. For the whole run: when
  the text left in the source has too few uninformative lines for the counter to reach
  5, the source runs out first, and the result is the error of the source and never a
  list (unless the run panics before, which is claim C6).
\<close>

theorem C9_failed_read_is_returned:
  "(ReadString r CHR 0x0A = ((line, Some err), r1)
    \<longrightarrow> ParseFileForImports_loop r imps n = (Return [] (Some err), r1)
        \<and> ParseFileForImports_block r imps = (Exit (Return [] (Some err)), r1))
   \<and> (ReadString r CHR 0x0A = ((line, None), r1) \<and> TrimSpace line \<noteq> []
      \<and> \<not> Contains line ''import \"'' \<and> Contains line ''import (''
      \<and> ParseFileForImports_block r1 imps = (Exit out, r2)
    \<longrightarrow> ParseFileForImports_loop r imps n = (out, r2))
   \<and> (n + uninformative_lines (buf r) < 5
    \<longrightarrow> fst (ParseFileForImports_loop r imps n) = Return [] (Some (src_err r))
        \<or> (\<exists>p. fst (ParseFileForImports_loop r imps n) = Panic p))"
proof (intro conjI impI)
  assume a: "ReadString r CHR 0x0A = ((line, Some err), r1)"
  then show "ParseFileForImports_loop r imps n = (Return [] (Some err), r1)"
    by (rule ParseFileForImports_loop_fail)
  from a show "ParseFileForImports_block r imps = (Exit (Return [] (Some err)), r1)"
    by (rule ParseFileForImports_block_fail)
next
  assume "ReadString r CHR 0x0A = ((line, None), r1) \<and> TrimSpace line \<noteq> []
      \<and> \<not> Contains line ''import \"'' \<and> Contains line ''import (''
      \<and> ParseFileForImports_block r1 imps = (Exit out, r2)"
  then show "ParseFileForImports_loop r imps n = (out, r2)"
    by (simp add: ParseFileForImports_loop_line)
next
  assume few: "n + uninformative_lines (buf r) < 5"
  obtain out r' where run: "ParseFileForImports_loop r imps n = (out, r')"
    by (metis prod.exhaust)
  show "fst (ParseFileForImports_loop r imps n) = Return [] (Some (src_err r))
        \<or> (\<exists>p. fst (ParseFileForImports_loop r imps n) = Panic p)"
  proof (cases out)
    case (Panic p)
    with run show ?thesis by simp
  next
    case (Return xs e)
    show ?thesis
    proof (cases e)
      case None
      with Return ParseFileForImports_loop_counted [OF run, of xs]
      obtain c where c: "buf r = c @ buf r'" "whole_lines c"
        "5 \<le> n + uninformative_lines c" by blast
      from uninformative_lines_split [OF c(1,2)] c(3) few show ?thesis by simp
    next
      case (Some err)
      with Return ParseFileForImports_loop_error [OF run, of xs err] run
      show ?thesis by simp
    qed
  qed
qed

text \<open>
  A file whose only line has no newline, an import block that is never closed, and a
  file of two lines that ends long before the threshold.
\<close>

theorem C9_failed_read_is_returned_witness:
  "ParseFileForImports_loop (NewReader ''package main'') [''os''] 3
     = (Return [] (Some EOF), NewReader [])
   \<and> ParseFileForImports_block (NewReader ''package main'') [''os'']
     = (Exit (Return [] (Some EOF)), NewReader [])
   \<and> ParseFileForImports_loop (NewReader (file_of [''import ('', ''\"os\"''])) [] 0
     = (Return [] (Some EOF), NewReader [])
   \<and> (fst (ParseFileForImports_loop
              (NewReader (file_of [''import \"os\"'', ''func main() {}''])) [] 0)
         = Return [] (Some EOF)
       \<or> (\<exists>p. fst (ParseFileForImports_loop
              (NewReader (file_of [''import \"os\"'', ''func main() {}''])) [] 0) = Panic p))"
proof -
  note T = C9_failed_read_is_returned
  have h1: "ReadString (NewReader ''package main'') CHR 0x0A
              = ((''package main'', Some EOF), NewReader [])"
    by code_simp
  have h2: "ReadString (NewReader (file_of [''import ('', ''\"os\"''])) CHR 0x0A
              = ((ln ''import ('', None), NewReader (file_of [''\"os\"'']))
            \<and> TrimSpace (ln ''import ('') \<noteq> []
            \<and> \<not> Contains (ln ''import ('') ''import \"''
            \<and> Contains (ln ''import ('') ''import (''
            \<and> ParseFileForImports_block (NewReader (file_of [''\"os\"''])) []
                = (Exit (Return [] (Some EOF)), NewReader [])"
    by code_simp
  have h3: "0 + uninformative_lines
                  (buf (NewReader (file_of [''import \"os\"'', ''func main() {}'']))) < 5"
    by code_simp
  from T [THEN conjunct1, THEN mp, OF h1, of "[''os'']" 3]
  have w1: "ParseFileForImports_loop (NewReader ''package main'') [''os''] 3
             = (Return [] (Some EOF), NewReader [])
            \<and> ParseFileForImports_block (NewReader ''package main'') [''os'']
             = (Exit (Return [] (Some EOF)), NewReader [])" .
  from T [THEN conjunct2, THEN conjunct1, THEN mp, OF h2, of 0]
  have w2: "ParseFileForImports_loop (NewReader (file_of [''import ('', ''\"os\"''])) [] 0
             = (Return [] (Some EOF), NewReader [])" .
  from T [THEN conjunct2, THEN conjunct2, THEN mp, OF h3, of "[]"]
  have w3: "fst (ParseFileForImports_loop
              (NewReader (file_of [''import \"os\"'', ''func main() {}''])) [] 0)
         = Return [] (Some EOF)
       \<or> (\<exists>p. fst (ParseFileForImports_loop
              (NewReader (file_of [''import \"os\"'', ''func main() {}''])) [] 0) = Panic p)"
    by (simp add: NewReader_def)
  from w1 w2 w3 show ?thesis by blast
qed

section \<open>The lines of an import block\<close>





section \<open>Which dependencies are left out\<close>







section \<open>The package name of a directory\<close>












section \<open>Errors while the directories are processed\<close>









end
